theory Spec2Isabelle
  imports Complex_Main "HOL-Library.Log_Nat"
begin

section \<open>Data model\<close>

text \<open>
  Timestamps are produced by \<^verbatim>\<open>datetime.now().strftime("%Y-%m-%d %H:%M:%S")\<close> and stored
  as TEXT. Every stored string has this fixed-width shape, so a timestamp is modelled by
  its six numeric fields; equality of the records is equality of the strings.
\<close>

record datetime =
  year :: nat
  month :: nat
  day :: nat
  hour :: nat
  minute :: nat
  second :: nat

type_synonym date = "nat \<times> nat \<times> nat"

text \<open>\<^verbatim>\<open>inicio.date()\<close> in Python, \<^verbatim>\<open>date(data_hora)\<close> in SQL.\<close>

definition date_of :: "datetime \<Rightarrow> date" where
  "date_of t = (year t, month t, day t)"

text \<open>Table \<^verbatim>\<open>log_atividade (id, status, data_hora, data_hora_final)\<close>.\<close>

record log_row =
  row_id :: nat
  status :: string
  data_hora :: datetime
  data_hora_final :: "datetime option"

text \<open>
  Table \<^verbatim>\<open>programas_documentos (id, nome_programa, nome_documento, data_hora_inicio,
  data_hora_final)\<close>. Program and document are NULL when no window has the focus.
\<close>

record prog_row =
  prog_id :: nat
  nome_programa :: "string option"
  nome_documento :: "string option"
  data_hora_inicio :: datetime
  prog_data_hora_final :: "datetime option"

record banco =
  log_atividade :: "log_row list"
  programas_documentos :: "prog_row list"

text \<open>
  The fields of \<^verbatim>\<open>LogAtividade\<close> that the tracker reads and writes, with the database
  it owns.
\<close>

record estado =
  db :: banco
  status_atual :: "string option"
  ultimo_app :: "string option"
  ultimo_titulo :: "string option"
  inicio_app :: "datetime option"

text \<open>\<^verbatim>\<open>LogAtividade.__init__\<close> on a database whose tables were just created.\<close>

definition banco_vazio :: banco where
  "banco_vazio = \<lparr>log_atividade = [], programas_documentos = []\<rparr>"

definition init :: "banco \<Rightarrow> estado" where
  "init b = \<lparr>db = b, status_atual = None, ultimo_app = None, ultimo_titulo = None,
     inicio_app = None\<rparr>"

text \<open>Python truth value of an \<^verbatim>\<open>Optional[str]\<close>: \<^verbatim>\<open>None\<close> and \<^verbatim>\<open>""\<close> are false.\<close>

definition truthy :: "string option \<Rightarrow> bool" where
  "truthy s = (case s of None \<Rightarrow> False | Some x \<Rightarrow> x \<noteq> [])"

section \<open>Interval store: the SQL statements\<close>

text \<open>
  SQL comparison \<^verbatim>\<open>column = ?\<close>: true only when both sides are present and equal; a
  NULL on either side never matches.
\<close>

definition sql_eq :: "'a option \<Rightarrow> 'a option \<Rightarrow> bool" where
  "sql_eq a b = (case a of None \<Rightarrow> False | Some x \<Rightarrow> (case b of None \<Rightarrow> False | Some y \<Rightarrow> x = y))"

text \<open>
  \<^verbatim>\<open>AUTOINCREMENT\<close>: a new row gets an id one larger than the largest id of the table
  (rows are never deleted).
\<close>

definition proximo_id :: "nat list \<Rightarrow> nat" where
  "proximo_id ids = Suc (foldr max ids 0)"

text \<open>
  \<^verbatim>\<open>UPDATE log_atividade SET data_hora_final = ? WHERE status = ? AND data_hora_final IS NULL\<close>
  with parameters \<^verbatim>\<open>(agora, status_atual)\<close>: first the \<^verbatim>\<open>WHERE\<close> clause, then the statement.
\<close>

definition where_log_atividade :: "string \<Rightarrow> log_row \<Rightarrow> bool" where
  "where_log_atividade st r = (status r = st \<and> data_hora_final r = None)"

definition update_log_atividade :: "datetime \<Rightarrow> string \<Rightarrow> log_row list \<Rightarrow> log_row list" where
  "update_log_atividade agora st rows =
     map (\<lambda>r. if where_log_atividade st r then r\<lparr>data_hora_final := Some agora\<rparr> else r) rows"

text \<open>\<^verbatim>\<open>INSERT INTO log_atividade (status, data_hora) VALUES (?, ?)\<close>.\<close>

definition insert_log_atividade :: "string \<Rightarrow> datetime \<Rightarrow> log_row list \<Rightarrow> log_row list" where
  "insert_log_atividade st agora rows =
     rows @ [\<lparr>row_id = proximo_id (map row_id rows), status = st, data_hora = agora,
              data_hora_final = None\<rparr>]"

text \<open>
  \<^verbatim>\<open>UPDATE programas_documentos SET data_hora_final = ? WHERE nome_programa = ? AND
  nome_documento = ? AND data_hora_inicio = ? AND data_hora_final IS NULL\<close>
  with parameters \<^verbatim>\<open>(agora, ultimo_app, ultimo_titulo, inicio_app)\<close>.
\<close>

definition where_programas_documentos ::
  "string option \<Rightarrow> string option \<Rightarrow> datetime \<Rightarrow> prog_row \<Rightarrow> bool" where
  "where_programas_documentos app titulo inicio r =
     (sql_eq (nome_programa r) app \<and> sql_eq (nome_documento r) titulo
        \<and> data_hora_inicio r = inicio \<and> prog_data_hora_final r = None)"

definition update_programas_documentos ::
  "datetime \<Rightarrow> string option \<Rightarrow> string option \<Rightarrow> datetime \<Rightarrow> prog_row list \<Rightarrow> prog_row list" where
  "update_programas_documentos agora app titulo inicio rows =
     map (\<lambda>r. if where_programas_documentos app titulo inicio r
              then r\<lparr>prog_data_hora_final := Some agora\<rparr> else r) rows"

text \<open>
  \<^verbatim>\<open>INSERT INTO programas_documentos (nome_programa, nome_documento, data_hora_inicio)
  VALUES (?, ?, ?)\<close>.
\<close>

definition insert_programas_documentos ::
  "string option \<Rightarrow> string option \<Rightarrow> datetime \<Rightarrow> prog_row list \<Rightarrow> prog_row list" where
  "insert_programas_documentos app titulo agora rows =
     rows @ [\<lparr>prog_id = proximo_id (map prog_id rows), nome_programa = app,
              nome_documento = titulo, data_hora_inicio = agora,
              prog_data_hora_final = None\<rparr>]"

text \<open>
  \<^verbatim>\<open>BancoUtil.executar\<close> for a write. The flag says whether SQLite accepts the statement;
  a rejected statement changes nothing. When SQLite raises \<^verbatim>\<open>sqlite3.Error\<close> the method
  prints the error and returns \<^verbatim>\<open>None\<close>. \<^verbatim>\<open>registrar_status\<close> discards the returned
  value, so only the table is kept here.
\<close>

definition executar :: "bool \<Rightarrow> ('t \<Rightarrow> 't) \<Rightarrow> 't \<Rightarrow> 't" where
  "executar ok query tabela = (if ok then query tabela else tabela)"

text \<open>
  \<^verbatim>\<open>BancoUtil.executar\<close> with \<^verbatim>\<open>fetch=True\<close>: the fetched rows, or \<^verbatim>\<open>None\<close> after an error.
\<close>

definition executar_fetch :: "bool \<Rightarrow> ('t \<Rightarrow> 'r) \<Rightarrow> 't \<Rightarrow> 'r option" where
  "executar_fetch ok query tabela = (if ok then Some (query tabela) else None)"

section \<open>Trackers\<close>

text \<open>
  \<^verbatim>\<open>registrar_status(novo_status)\<close>. \<^verbatim>\<open>agora\<close> is the one clock reading of the call; the two
  flags are the outcomes of its two \<^verbatim>\<open>executar\<close> calls.
\<close>

definition registrar_status :: "datetime \<Rightarrow> bool \<Rightarrow> bool \<Rightarrow> string \<Rightarrow> estado \<Rightarrow> estado" where
  "registrar_status agora ok_update ok_insert novo_status s =
     (if status_atual s \<noteq> Some novo_status then
        let la = log_atividade (db s);
            la1 = (case status_atual s of
                     None \<Rightarrow> la
                   | Some st \<Rightarrow> if st \<noteq> [] then executar ok_update (update_log_atividade agora st) la
                               else la);
            la2 = executar ok_insert (insert_log_atividade novo_status agora) la1
        in s\<lparr>db := (db s)\<lparr>log_atividade := la2\<rparr>, status_atual := Some novo_status\<rparr>
      else s)"

datatype erro = Sqlite_Error

text \<open>
  \<^verbatim>\<open>registrar_programa(app, titulo)\<close> runs its statements on a cursor of its own, outside
  \<^verbatim>\<open>executar\<close>: a statement that SQLite rejects raises out of the method, before the
  assignment to \<^verbatim>\<open>ultimo_app, ultimo_titulo, inicio_app\<close>. The error is returned with the
  state the method leaves behind: the tracker fields as they were, and the tables as the
  shared connection sees them. When the \<^verbatim>\<open>INSERT\<close> is the statement that fails, the
  \<^verbatim>\<open>UPDATE\<close> before it has been executed on that connection and waits for its next
  \<^verbatim>\<open>commit\<close>.
\<close>

definition registrar_programa ::
  "datetime \<Rightarrow> bool \<Rightarrow> bool \<Rightarrow> string option \<Rightarrow> string option \<Rightarrow> estado
     \<Rightarrow> (erro \<times> estado) + estado" where
  "registrar_programa agora ok_update ok_insert app titulo s =
     (let pd = programas_documentos (db s);
          fecha = (truthy (ultimo_app s) \<and> inicio_app s \<noteq> None)
      in if fecha \<and> \<not> ok_update then Inl (Sqlite_Error, s)
         else
           let pd1 = (case inicio_app s of
                        None \<Rightarrow> pd
                      | Some ini \<Rightarrow>
                          if fecha
                          then update_programas_documentos agora (ultimo_app s) (ultimo_titulo s) ini pd
                          else pd)
           in if \<not> ok_insert
              then Inl (Sqlite_Error, s\<lparr>db := (db s)\<lparr>programas_documentos := pd1\<rparr>\<rparr>)
              else Inr (s\<lparr>db := (db s)\<lparr>programas_documentos :=
                              insert_programas_documentos app titulo agora pd1\<rparr>,
                          ultimo_app := app, ultimo_titulo := titulo,
                          inicio_app := Some agora\<rparr>))"

text \<open>
  One pass of the \<^verbatim>\<open>monitorar\<close> loop consumes one sample: the idle time in seconds
  (\<^verbatim>\<open>get_idle_time()\<close>), the focused pair (\<^verbatim>\<open>get_focused_app()\<close>, \<^verbatim>\<open>(None, None)\<close> when
  there is no foreground window or the query fails), the clock readings of the two
  \<^verbatim>\<open>registrar\<close> calls, and the outcomes of the four SQL writes.
\<close>

record amostra =
  idle_time :: rat
  foco :: "string option \<times> string option"
  agora_status :: datetime
  agora_programa :: datetime
  ok_status_update :: bool
  ok_status_insert :: bool
  ok_programa_update :: bool
  ok_programa_insert :: bool

definition LIMITE_OCIOSO :: rat where
  "LIMITE_OCIOSO = 300"

definition tick :: "rat \<Rightarrow> amostra \<Rightarrow> estado \<Rightarrow> (erro \<times> estado) + estado" where
  "tick limite_ocioso a s =
     (let st = (if idle_time a \<ge> limite_ocioso then ''Ocioso'' else ''Ativo'');
          s1 = registrar_status (agora_status a) (ok_status_update a) (ok_status_insert a) st s;
          app = fst (foco a);
          titulo = snd (foco a)
      in if app \<noteq> ultimo_app s1 \<or> titulo \<noteq> ultimo_titulo s1
         then registrar_programa (agora_programa a) (ok_programa_update a)
                (ok_programa_insert a) app titulo s1
         else Inr s1)"

text \<open>
  The loop over a finite run of samples. An exception out of \<^verbatim>\<open>registrar_programa\<close> is
  not caught in \<^verbatim>\<open>monitorar\<close>: it ends the monitoring thread, no later sample is read,
  and the state is the one the failing poll left.
\<close>

fun monitorar :: "rat \<Rightarrow> amostra list \<Rightarrow> estado \<Rightarrow> (erro \<times> estado) + estado" where
  "monitorar limite_ocioso [] s = Inr s"
| "monitorar limite_ocioso (a # as) s =
     (case tick limite_ocioso a s of
        Inl e \<Rightarrow> Inl e
      | Inr s' \<Rightarrow> monitorar limite_ocioso as s')"

section \<open>Double precision\<close>

text \<open>
  SQLite computes \<^verbatim>\<open>julianday\<close>, the differences, the products and the sums of the totals
  query in IEEE 754 binary64. A double is kept as the rational number it denotes, and
  every operation rounds its exact result to the nearest double, ties to even:
  53 significant bits, so the spacing of the doubles between \<open>2 ^ e\<close> and \<open>2 ^ (e + 1)\<close>
  is \<open>2 ^ (e - 52)\<close>. Overflow and subnormal numbers are left out; the values of the
  query are far from both.
\<close>

definition round_half_even :: "rat \<Rightarrow> int" where
  "round_half_even q =
     (let f = \<lfloor>q\<rfloor>; r = q - of_int f
      in if r < 1 / 2 then f else if 1 / 2 < r then f + 1
         else if even f then f else f + 1)"

text \<open>The binary exponent of a positive number: \<open>2 ^ e \<le> x < 2 ^ (e + 1)\<close>.\<close>

definition ilog2 :: "rat \<Rightarrow> int" where
  "ilog2 x =
     (if 1 \<le> x then int (floorlog 2 (nat \<lfloor>x\<rfloor>)) - 1
      else - int (floorlog 2 (nat (\<lceil>1 / x\<rceil> - 1))))"

definition binary64 :: "rat \<Rightarrow> rat" where
  "binary64 x =
     (if x = 0 then 0
      else let u = 2 powi (ilog2 \<bar>x\<bar> - 52)
           in of_int (round_half_even (x / u)) * u)"

section \<open>Aggregator: daily totals\<close>

text \<open>
  SQLite's Julian day number of a calendar date (library code, outside the repository):
  with January and February counted as months 13 and 14 of the year before,
  \<^verbatim>\<open>A = (Y+4800)/100\<close>, \<^verbatim>\<open>B = 38 - A + A/4\<close>, \<^verbatim>\<open>X1 = 36525*(Y+4716)/100\<close>,
  \<^verbatim>\<open>X2 = 306001*(M+1)/10000\<close>, and the day at midnight is \<^verbatim>\<open>X1 + X2 + D + B - 1524.5\<close>.
\<close>

definition dia_juliano :: "date \<Rightarrow> int" where
  "dia_juliano d =
     (case d of (y0, m0, d0) \<Rightarrow>
        let y = (if m0 \<le> 2 then int y0 - 1 else int y0);
            m = (if m0 \<le> 2 then int m0 + 12 else int m0);
            a = (y + 4800) div 100;
            b = 38 - a + a div 4;
            x1 = 36525 * (y + 4716) div 100;
            x2 = 306001 * (m + 1) div 10000
        in x1 + x2 + int d0 + b)"

text \<open>
  \<^verbatim>\<open>iJD\<close>: the instant in milliseconds since noon of Julian day 0, a 64-bit integer:
  \<^verbatim>\<open>(X1 + X2 + D + B - 1524.5) * 86400000 + h*3600000 + m*60000 + s*1000\<close>.
\<close>

definition iJD :: "datetime \<Rightarrow> int" where
  "iJD t = (2 * dia_juliano (date_of t) - 3049) * 43200000
             + int (hour t * 3600000 + minute t * 60000 + second t * 1000)"

text \<open>\<^verbatim>\<open>julianday(ts)\<close> is the double \<^verbatim>\<open>iJD / 86400000.0\<close>.\<close>

definition julianday :: "datetime \<Rightarrow> rat" where
  "julianday t = binary64 (of_int (iJD t) / 86400000)"

text \<open>\<^verbatim>\<open>COALESCE(data_hora_final, DATETIME('now', 'localtime'))\<close>.\<close>

definition fim_efetivo :: "datetime \<Rightarrow> log_row \<Rightarrow> datetime" where
  "fim_efetivo agora r = (case data_hora_final r of None \<Rightarrow> agora | Some f \<Rightarrow> f)"

text \<open>
  \<^verbatim>\<open>(julianday(COALESCE(...)) - julianday(data_hora)) * 24\<close>: a double subtraction, then a
  double product.
\<close>

definition horas :: "datetime \<Rightarrow> log_row \<Rightarrow> rat" where
  "horas agora r =
     binary64 (binary64 (julianday (fim_efetivo agora r) - julianday (data_hora r)) * 24)"

text \<open>
  The SQL aggregate \<^verbatim>\<open>SUM\<close> over REAL values (SQLite 3.43 and later): a running sum
  \<^verbatim>\<open>rSum\<close> with the Kahan-Babuska-Neumaier correction \<^verbatim>\<open>rErr\<close>,
  \<^verbatim>\<open>t = s + r; rErr += fabs(s) > fabs(r) ? (s - t) + r : (r - t) + s; rSum = t\<close>,
  and the result \<^verbatim>\<open>rSum + rErr\<close>. The aggregate is NULL until the first row arrives. The
  integer zeros of \<^verbatim>\<open>ELSE 0\<close> leave sum and correction as they are on either path of
  the C code.
\<close>

type_synonym sum_ctx = "rat \<times> rat"

definition kbn_step :: "sum_ctx \<Rightarrow> rat \<Rightarrow> sum_ctx" where
  "kbn_step p r =
     (case p of (s, err) \<Rightarrow>
        let t = binary64 (s + r)
        in (t, binary64 (err + (if \<bar>r\<bar> < \<bar>s\<bar> then binary64 (binary64 (s - t) + r)
                                else binary64 (binary64 (r - t) + s)))))"

definition sum_step :: "sum_ctx option \<Rightarrow> rat \<Rightarrow> sum_ctx option" where
  "sum_step acc x = Some (kbn_step (case acc of None \<Rightarrow> (0, 0) | Some p \<Rightarrow> p) x)"

definition sum_final :: "sum_ctx option \<Rightarrow> rat option" where
  "sum_final acc = (case acc of None \<Rightarrow> None | Some (s, err) \<Rightarrow> Some (binary64 (s + err)))"

definition sql_sum :: "rat list \<Rightarrow> rat option" where
  "sql_sum xs = sum_final (foldl sum_step None xs)"

text \<open>
  The three aggregates of the query: all rows, \<^verbatim>\<open>CASE WHEN status = 'Ativo'\<close>, and
  \<^verbatim>\<open>CASE WHEN status = 'Ocioso'\<close>; first while the table is scanned, then their results.
\<close>

record acumuladores =
  ac_total :: "sum_ctx option"
  ac_ativo :: "sum_ctx option"
  ac_ocioso :: "sum_ctx option"

record somas =
  soma_total :: "rat option"
  soma_ativo :: "rat option"
  soma_ocioso :: "rat option"

text \<open>
  The scan of \<^verbatim>\<open>log_atividade\<close>: a row enters the aggregates when it passes
  \<^verbatim>\<open>WHERE date(data_hora) = ?\<close>.
\<close>

definition consulta_passo :: "date \<Rightarrow> datetime \<Rightarrow> acumuladores \<Rightarrow> log_row \<Rightarrow> acumuladores" where
  "consulta_passo hoje agora acc r =
     (if date_of (data_hora r) = hoje then
        \<lparr>ac_total = sum_step (ac_total acc) (horas agora r),
         ac_ativo = sum_step (ac_ativo acc) (if status r = ''Ativo'' then horas agora r else 0),
         ac_ocioso = sum_step (ac_ocioso acc) (if status r = ''Ocioso'' then horas agora r else 0)\<rparr>
      else acc)"

definition consulta_somas :: "date \<Rightarrow> datetime \<Rightarrow> log_row list \<Rightarrow> somas" where
  "consulta_somas hoje agora rows =
     (let acc = foldl (consulta_passo hoje agora)
                  \<lparr>ac_total = None, ac_ativo = None, ac_ocioso = None\<rparr> rows
      in \<lparr>soma_total = sum_final (ac_total acc), soma_ativo = sum_final (ac_ativo acc),
          soma_ocioso = sum_final (ac_ocioso acc)\<rparr>)"

text \<open>\<^verbatim>\<open>CAST(x AS INTEGER)\<close> of a REAL: truncation towards zero.\<close>

definition cast_integer :: "rat \<Rightarrow> int" where
  "cast_integer x = (if x \<ge> 0 then \<lfloor>x\<rfloor> else \<lceil>x\<rceil>)"

text \<open>
  SQL \<^verbatim>\<open>x % 60\<close>: both operands are cast to INTEGER, the remainder has the sign of the
  dividend.
\<close>

definition sql_mod60 :: "rat \<Rightarrow> int" where
  "sql_mod60 x = sgn (cast_integer x) * (\<bar>cast_integer x\<bar> mod 60)"

function digitos :: "nat \<Rightarrow> string" where
  "digitos n =
     (if n < 10 then [''0123456789'' ! n]
      else digitos (n div 10) @ [''0123456789'' ! (n mod 10)])"
  by pat_completeness auto
termination
  by (relation "measure id") auto

declare digitos.simps [simp del]

text \<open>\<^verbatim>\<open>%02d\<close>: at least two characters, padded with zeros; the sign counts as one.\<close>

definition fmt_02d :: "int \<Rightarrow> string" where
  "fmt_02d n =
     (if n < 0 then ''-'' @ digitos (nat (- n))
      else if n < 10 then ''0'' @ digitos (nat n)
      else digitos (nat n))"

text \<open>
  \<^verbatim>\<open>printf('%02d:%02d', CAST(s AS INTEGER), CAST((s * 60) % 60 AS INTEGER))\<close>; the product
  \<^verbatim>\<open>s * 60\<close> is a double, and a NULL argument of \<^verbatim>\<open>%d\<close> prints as 0.
\<close>

definition printf_hhmm :: "rat option \<Rightarrow> string" where
  "printf_hhmm s =
     fmt_02d (case s of None \<Rightarrow> 0 | Some x \<Rightarrow> cast_integer x) @ '':'' @
     fmt_02d (case s of None \<Rightarrow> 0 | Some x \<Rightarrow> sql_mod60 (binary64 (x * 60)))"

text \<open>
  \<^verbatim>\<open>ROUND(x, 2)\<close>: the decimal expansion of the double is rounded to two places, halves
  away from zero, and read back as a double.
\<close>

definition round2 :: "rat \<Rightarrow> rat" where
  "round2 x = (if x < 0 then - 1 else 1) * of_int \<lfloor>\<bar>x\<bar> * 100 + 1 / 2\<rfloor> / 100"

definition sql_round2 :: "rat \<Rightarrow> rat" where
  "sql_round2 x = binary64 (round2 x)"

text \<open>
  \<^verbatim>\<open>ROUND(100.0 * SUM(ocioso) / SUM(total), 2)\<close>: NULL when an operand is NULL, and
  NULL when the divisor is zero.
\<close>

definition percentual :: "rat option \<Rightarrow> rat option \<Rightarrow> rat option" where
  "percentual oci tot =
     (case oci of
        None \<Rightarrow> None
      | Some i \<Rightarrow> (case tot of
                    None \<Rightarrow> None
                  | Some t \<Rightarrow> if t = 0 then None
                             else Some (sql_round2 (binary64 (binary64 (100 * i) / t)))))"

text \<open>
  The result set of the totals query. An aggregate query without \<^verbatim>\<open>GROUP BY\<close> always
  returns exactly one row. Python receives NULL as \<^verbatim>\<open>None\<close>.
\<close>

type_synonym linha_horas = "string \<times> string \<times> string \<times> rat option"

definition consulta_horas :: "date \<Rightarrow> datetime \<Rightarrow> log_row list \<Rightarrow> linha_horas list" where
  "consulta_horas hoje agora rows =
     (let s = consulta_somas hoje agora rows
      in [(printf_hhmm (soma_total s), printf_hhmm (soma_ativo s), printf_hhmm (soma_ocioso s),
           percentual (soma_ocioso s) (soma_total s))])"

text \<open>
  The first block of \<^verbatim>\<open>atualizar_canvas\<close>: \<^verbatim>\<open>(horas_totais, horas_ativas, horas_ociosas,
  pct_ociosas)\<close>. The defaults are taken when \<^verbatim>\<open>executar\<close> returned \<^verbatim>\<open>None\<close> or no row.
\<close>

definition horas_do_dia :: "bool \<Rightarrow> date \<Rightarrow> datetime \<Rightarrow> log_row list \<Rightarrow> linha_horas" where
  "horas_do_dia ok hoje agora rows =
     (case executar_fetch ok (consulta_horas hoje agora) rows of
        None \<Rightarrow> (''00:00'', ''00:00'', ''00:00'', Some 0)
      | Some [] \<Rightarrow> (''00:00'', ''00:00'', ''00:00'', Some 0)
      | Some (r # _) \<Rightarrow> r)"

section \<open>Durations in whole seconds\<close>

text \<open>
  The direct computation that the totals are compared with: the difference of two
  timestamps in whole seconds, as Python's \<^verbatim>\<open>(fim - inicio).total_seconds()\<close> gives it,
  from the proleptic Gregorian ordinal of each date (\<^verbatim>\<open>date.toordinal()\<close>).
\<close>

definition bissexto :: "nat \<Rightarrow> bool" where
  "bissexto y = (y mod 4 = 0 \<and> (y mod 100 \<noteq> 0 \<or> y mod 400 = 0))"

definition dias_antes_do_ano :: "nat \<Rightarrow> int" where
  "dias_antes_do_ano y =
     (let y1 = int y - 1 in y1 * 365 + y1 div 4 - y1 div 100 + y1 div 400)"

definition dias_antes_do_mes :: "nat \<Rightarrow> nat \<Rightarrow> int" where
  "dias_antes_do_mes y m =
     int ([0, 31, 59, 90, 120, 151, 181, 212, 243, 273, 304, 334] ! (m - 1))
       + (if 2 < m \<and> bissexto y then 1 else 0)"

definition toordinal :: "date \<Rightarrow> int" where
  "toordinal d = (case d of (y, m, dd) \<Rightarrow> dias_antes_do_ano y + dias_antes_do_mes y m + int dd)"

definition total_seconds :: "datetime \<Rightarrow> datetime \<Rightarrow> int" where
  "total_seconds inicio fim =
     (toordinal (date_of fim) - toordinal (date_of inicio)) * 86400
       + (int (hour fim * 3600 + minute fim * 60 + second fim)
          - int (hour inicio * 3600 + minute inicio * 60 + second inicio))"

text \<open>
  Timestamps with fields in their ranges, in the years whose Julian days lie between
  \<open>2 ^ 21\<close> and \<open>2 ^ 22\<close>, where doubles are spaced \<open>2 ^ - 31\<close> of a day apart.
\<close>

definition no_intervalo :: "datetime \<Rightarrow> bool" where
  "no_intervalo t =
     (1100 \<le> year t \<and> year t \<le> 6000 \<and> 1 \<le> month t \<and> month t \<le> 12
        \<and> 1 \<le> day t \<and> day t \<le> 31 \<and> hour t < 24 \<and> minute t < 60 \<and> second t < 60)"

section \<open>Aggregator: the per-minute grid\<close>

text \<open>
  \<^verbatim>\<open>SELECT status, data_hora, COALESCE(data_hora_final, DATETIME('now', 'localtime'))
  FROM log_atividade\<close>, and \<^verbatim>\<open>or []\<close> when \<^verbatim>\<open>executar\<close> returned \<^verbatim>\<open>None\<close>.
\<close>

definition select_linhas :: "datetime \<Rightarrow> log_row list \<Rightarrow> (string \<times> datetime \<times> datetime) list" where
  "select_linhas agora rows = map (\<lambda>r. (status r, data_hora r, fim_efetivo agora r)) rows"

definition linhas_canvas :: "bool \<Rightarrow> datetime \<Rightarrow> log_row list \<Rightarrow> (string \<times> datetime \<times> datetime) list" where
  "linhas_canvas ok agora rows =
     (case executar_fetch ok (select_linhas agora) rows of None \<Rightarrow> [] | Some rs \<Rightarrow> rs)"

text \<open>
  \<^verbatim>\<open>for i in range(min_inicio, min_fim + 1): if 0 <= i < 1440: colors[i] = cor\<close>.
\<close>

definition pintar :: "nat \<Rightarrow> nat \<Rightarrow> string \<Rightarrow> string list \<Rightarrow> string list" where
  "pintar min_inicio min_fim cor colors =
     fold (\<lambda>i cs. if i < 1440 then cs[i := cor] else cs) [min_inicio..<min_fim + 1] colors"

text \<open>The body of the loop over the fetched rows.\<close>

definition processar_linha :: "date \<Rightarrow> string \<times> datetime \<times> datetime \<Rightarrow> string list \<Rightarrow> string list" where
  "processar_linha hoje row colors =
     (case row of (st, inicio, fim) \<Rightarrow>
        if date_of inicio \<noteq> hoje then colors
        else pintar (hour inicio * 60 + minute inicio) (hour fim * 60 + minute fim)
               (if st = ''Ativo'' then ''green'' else ''red'') colors)"

text \<open>Light blue from 08:00 to 18:00 for the slots that are still gray.\<close>

definition horario_comercial :: "string list \<Rightarrow> string list" where
  "horario_comercial colors =
     fold (\<lambda>minuto cs. if cs ! minuto = ''gray'' then cs[minuto := ''lightblue''] else cs)
       [8 * 60..<18 * 60] colors"

text \<open>The colour list that the second block of \<^verbatim>\<open>atualizar_canvas\<close> hands to the canvas.\<close>

definition cores :: "bool \<Rightarrow> date \<Rightarrow> datetime \<Rightarrow> log_row list \<Rightarrow> string list" where
  "cores ok hoje agora rows =
     horario_comercial
       (fold (processar_linha hoje) (linhas_canvas ok agora rows) (replicate 1440 ''gray''))"

section \<open>Concrete inputs\<close>

text \<open>An instant of January 2024, and a sample whose four writes all succeed.\<close>

definition instante :: "nat \<Rightarrow> nat \<Rightarrow> nat \<Rightarrow> nat \<Rightarrow> datetime" where
  "instante d h m s = \<lparr>year = 2024, month = 1, day = d, hour = h, minute = m, second = s\<rparr>"

definition amostra_ok :: "rat \<Rightarrow> string option \<times> string option \<Rightarrow> datetime \<Rightarrow> amostra" where
  "amostra_ok idle f t =
     \<lparr>idle_time = idle, foco = f, agora_status = t, agora_programa = t,
      ok_status_update = True, ok_status_insert = True,
      ok_programa_update = True, ok_programa_insert = True\<rparr>"

text \<open>
  Three polls five seconds apart: a window of \<^verbatim>\<open>a.exe\<close> has the focus, then no window
  has it, then a window of \<^verbatim>\<open>b.exe\<close>.
\<close>

definition run_foco :: "amostra list" where
  "run_foco =
     [amostra_ok 0 (Some ''a.exe'', Some ''T'') (instante 15 9 0 0),
      amostra_ok 0 (None, None) (instante 15 9 0 5),
      amostra_ok 0 (Some ''b.exe'', Some ''U'') (instante 15 9 0 10)]"

text \<open>The tracker after the first two polls of \<^verbatim>\<open>run_foco\<close>.\<close>

definition estado_sem_foco :: estado where
  "estado_sem_foco =
     \<lparr>db = \<lparr>log_atividade =
               [\<lparr>row_id = 1, status = ''Ativo'', data_hora = instante 15 9 0 0,
                 data_hora_final = None\<rparr>],
             programas_documentos =
               [\<lparr>prog_id = 1, nome_programa = Some ''a.exe'', nome_documento = Some ''T'',
                 data_hora_inicio = instante 15 9 0 0,
                 prog_data_hora_final = Some (instante 15 9 0 5)\<rparr>,
                \<lparr>prog_id = 2, nome_programa = None, nome_documento = None,
                 data_hora_inicio = instante 15 9 0 5,
                 prog_data_hora_final = None\<rparr>]\<rparr>,
      status_atual = Some ''Ativo'', ultimo_app = None, ultimo_titulo = None,
      inicio_app = Some (instante 15 9 0 5)\<rparr>"

text \<open>
  A status table with two open rows of the same status. The first was left open when an
  earlier run of the program ended on 14 January; the second is opened by the first poll
  of a new run on the 15th, whose tracker starts without a status.
\<close>

definition linha_antiga :: log_row where
  "linha_antiga =
     \<lparr>row_id = 1, status = ''Ativo'', data_hora = instante 14 17 0 0, data_hora_final = None\<rparr>"

definition linha_corrente :: log_row where
  "linha_corrente =
     \<lparr>row_id = 2, status = ''Ativo'', data_hora = instante 15 9 0 0, data_hora_final = None\<rparr>"

definition estado_duas_abertas :: estado where
  "estado_duas_abertas =
     \<lparr>db = \<lparr>log_atividade = [linha_antiga, linha_corrente], programas_documentos = []\<rparr>,
      status_atual = Some ''Ativo'', ultimo_app = None, ultimo_titulo = None,
      inicio_app = None\<rparr>"

text \<open>Focus rows for the same program and document, opened at different instants.\<close>

definition foco_aberto :: "nat \<Rightarrow> datetime \<Rightarrow> prog_row" where
  "foco_aberto n t =
     \<lparr>prog_id = n, nome_programa = Some ''a.exe'', nome_documento = Some ''T'',
      data_hora_inicio = t, prog_data_hora_final = None\<rparr>"

text \<open>A closed interval, Active from 09:00 to 09:02 on 15 January.\<close>

definition linha_0900_0902 :: log_row where
  "linha_0900_0902 =
     \<lparr>row_id = 1, status = ''Ativo'', data_hora = instante 15 9 0 0,
      data_hora_final = Some (instante 15 9 2 0)\<rparr>"

text \<open>
  An interval that starts at 23:00 on 15 January and ends at 01:00 on the 16th, and the
  open interval that follows it.
\<close>

definition linha_meia_noite :: log_row where
  "linha_meia_noite =
     \<lparr>row_id = 1, status = ''Ativo'', data_hora = instante 15 23 0 0,
      data_hora_final = Some (instante 16 1 0 0)\<rparr>"

definition linha_aberta :: log_row where
  "linha_aberta =
     \<lparr>row_id = 2, status = ''Ocioso'', data_hora = instante 16 1 0 0,
      data_hora_final = None\<rparr>"



section \<open>Predicates on a series\<close>

text \<open>Zero-gap chaining: each row ends at the instant at which the next one starts.\<close>

fun encadeada :: "log_row list \<Rightarrow> bool" where
  "encadeada (r # r' # rs) = (data_hora_final r = Some (data_hora r') \<and> encadeada (r' # rs))"
| "encadeada rs = True"

text \<open>
  What the status tracker maintains between polls: without a current status the table
  is empty; with one, the last row is the open row of that status, every earlier row is
  closed, and the rows are chained.
\<close>

definition inv_status :: "estado \<Rightarrow> bool" where
  "inv_status s =
     (let la = log_atividade (db s) in
      case status_atual s of
        None \<Rightarrow> la = []
      | Some st \<Rightarrow> st \<noteq> [] \<and> la \<noteq> [] \<and> where_log_atividade st (last la)
                   \<and> list_all (\<lambda>r. data_hora_final r \<noteq> None) (butlast la)
                   \<and> encadeada la)"

section \<open>Rounding to double precision\<close>

lemma round_half_even_unique:
  assumes "\<bar>q - of_int k\<bar> < 1 / 2"
  shows "round_half_even q = k"
proof -
  from assms have a: "of_int k - 1 / 2 < q" and b: "q < of_int k + 1 / 2" by linarith+
  have "\<lfloor>q\<rfloor> = k \<or> \<lfloor>q\<rfloor> = k - 1" using a b by linarith
  then show ?thesis
  proof
    assume f: "\<lfloor>q\<rfloor> = k"
    then have "q - of_int \<lfloor>q\<rfloor> < 1 / 2" using b by simp
    then show ?thesis using f by (simp add: round_half_even_def Let_def)
  next
    assume f: "\<lfloor>q\<rfloor> = k - 1"
    then have "1 / 2 < q - of_int \<lfloor>q\<rfloor>" using a by simp
    then show ?thesis using f by (simp add: round_half_even_def Let_def)
  qed
qed

lemma round_half_even_of_int [simp]: "round_half_even (of_int k) = k"
  by (rule round_half_even_unique) simp

lemma round_half_even_error: "\<bar>of_int (round_half_even q) - q\<bar> \<le> 1 / 2"
proof -
  have "of_int \<lfloor>q\<rfloor> \<le> q" "q < of_int \<lfloor>q\<rfloor> + 1" by linarith+
  then show ?thesis by (auto simp: round_half_even_def Let_def)
qed

lemma floorlog2_bounds_rat:
  assumes "0 < n"
  shows "(2::rat) ^ (floorlog 2 n - 1) \<le> of_nat n" and "of_nat n + 1 \<le> (2::rat) ^ floorlog 2 n"
    and "0 < floorlog 2 n"
proof -
  from floorlog_bounds [OF assms, of 2]
  have a: "2 ^ (floorlog 2 n - 1) \<le> n" and b: "n < 2 ^ floorlog 2 n" by simp_all
  from a have "of_nat (2 ^ (floorlog 2 n - 1)) \<le> (of_nat n :: rat)" by (simp only: of_nat_le_iff)
  then show "(2::rat) ^ (floorlog 2 n - 1) \<le> of_nat n" by simp
  from b have "Suc n \<le> 2 ^ floorlog 2 n" by simp
  then have "of_nat (Suc n) \<le> (of_nat (2 ^ floorlog 2 n) :: rat)" by (simp only: of_nat_le_iff)
  then show "of_nat n + 1 \<le> (2::rat) ^ floorlog 2 n" by simp
  show "0 < floorlog 2 n" using assms by (simp add: floorlog_def)
qed

lemma ilog2_bounds:
  assumes "0 < x"
  shows "2 powi ilog2 x \<le> x \<and> x < 2 powi (ilog2 x + 1)"
proof (cases "1 \<le> x")
  case True
  define n where "n = nat \<lfloor>x\<rfloor>"
  have n: "0 < n" using True by (simp add: n_def)
  have nx: "of_nat n \<le> x" "x < of_nat n + 1"
    using True by (simp_all add: n_def) linarith+
  note fl = floorlog2_bounds_rat [OF n]
  have e: "ilog2 x = int (floorlog 2 n - 1)"
    using True fl(3) by (simp add: ilog2_def n_def of_nat_diff)
  have e1: "ilog2 x + 1 = int (floorlog 2 n)"
    using True fl(3) by (simp add: ilog2_def n_def)
  show ?thesis unfolding e1 unfolding e power_int_of_nat using fl nx by linarith
next
  case False
  define y where "y = 1 / x"
  define n where "n = nat (\<lceil>y\<rceil> - 1)"
  from False assms have y1: "1 < y" by (simp add: y_def)
  then have c: "2 \<le> \<lceil>y\<rceil>" by linarith
  then have n: "0 < n" by (simp add: n_def)
  have nn: "(of_nat n :: rat) = of_int \<lceil>y\<rceil> - 1" using c by (simp add: n_def)
  have ny: "of_nat n < y" "y \<le> of_nat n + 1" unfolding nn by linarith+
  note fl = floorlog2_bounds_rat [OF n]
  let ?f = "floorlog 2 n"
  have e: "ilog2 x = - int ?f" using False by (simp add: ilog2_def n_def y_def)
  have lo: "(2::rat) ^ (?f - 1) < y" using fl(1) ny(1) by linarith
  have hi: "y \<le> (2::rat) ^ ?f" using fl(2) ny(2) by linarith
  have p: "(0::rat) < 2 ^ ?f" "(0::rat) < 2 ^ (?f - 1)" by simp_all
  have x: "x = 1 / y" using assms by (simp add: y_def)
  have a: "1 / (2::rat) ^ ?f \<le> x"
    unfolding x using hi y1 p by (intro divide_left_mono mult_pos_pos) simp_all
  have y0: "0 < y" using y1 by linarith
  have b: "x < 1 / (2::rat) ^ (?f - 1)"
    unfolding x using lo p y0 by (intro divide_strict_left_mono mult_pos_pos) simp_all
  have e1: "- int ?f + 1 = - int (?f - 1)" using fl(3) by (simp add: of_nat_diff)
  show ?thesis unfolding e e1 power_int_minus power_int_of_nat
    using a b by (simp add: field_simps)
qed

lemma ilog2_unique:
  assumes "2 powi e \<le> x" and "x < 2 powi (e + 1)"
  shows "ilog2 x = e"
proof -
  have "(0::rat) < 2 powi e" by simp
  with assms(1) have x: "0 < x" by linarith
  note b = ilog2_bounds [OF x]
  have "2 powi e < (2::rat) powi (ilog2 x + 1)" using assms(1) b by linarith
  then have 1: "e < ilog2 x + 1"
    by (metis power_int_increasing not_le one_le_numeral)
  have "2 powi ilog2 x < (2::rat) powi (e + 1)" using assms(2) b by linarith
  then have 2: "ilog2 x < e + 1"
    by (metis power_int_increasing not_le one_le_numeral)
  from 1 2 show ?thesis by simp
qed

lemma binary64_eqI:
  assumes "2 powi e \<le> \<bar>x\<bar>" and "\<bar>x\<bar> < 2 powi (e + 1)"
    and "\<bar>x / 2 powi (e - 52) - of_int k\<bar> < 1 / 2"
  shows "binary64 x = of_int k * 2 powi (e - 52)"
proof -
  have "(0::rat) < 2 powi e" by simp
  with assms(1) have "0 < \<bar>x\<bar>" by linarith
  then have "x \<noteq> 0" by auto
  moreover have "ilog2 \<bar>x\<bar> = e" using assms(1,2) by (rule ilog2_unique)
  ultimately show ?thesis
    using round_half_even_unique [OF assms(3)] by (simp add: binary64_def Let_def)
qed

lemma binary64_error:
  assumes "2 powi e \<le> \<bar>x\<bar>" and "\<bar>x\<bar> < 2 powi (e + 1)"
  shows "\<bar>binary64 x - x\<bar> \<le> 2 powi (e - 53)"
    and "\<exists>k. binary64 x = of_int k * 2 powi (e - 52)"
proof -
  have "(0::rat) < 2 powi e" by simp
  with assms(1) have "0 < \<bar>x\<bar>" by linarith
  then have x0: "x \<noteq> 0" by auto
  have il: "ilog2 \<bar>x\<bar> = e" using assms(1,2) by (rule ilog2_unique)
  let ?u = "(2::rat) powi (e - 52)"
  have u: "0 < ?u" by simp
  have v: "binary64 x = of_int (round_half_even (x / ?u)) * ?u"
    using x0 il by (simp add: binary64_def Let_def)
  then show "\<exists>k. binary64 x = of_int k * 2 powi (e - 52)" by blast
  have "\<bar>of_int (round_half_even (x / ?u)) - x / ?u\<bar> \<le> 1 / 2" by (rule round_half_even_error)
  then have "\<bar>of_int (round_half_even (x / ?u)) - x / ?u\<bar> * ?u \<le> 1 / 2 * ?u"
    using u by (intro mult_right_mono) simp_all
  moreover have "\<bar>of_int (round_half_even (x / ?u)) - x / ?u\<bar> * ?u
      = \<bar>of_int (round_half_even (x / ?u)) * ?u - x\<bar>"
  proof -
    have "(of_int (round_half_even (x / ?u)) - x / ?u) * ?u
        = of_int (round_half_even (x / ?u)) * ?u - x"
      using u by (simp add: left_diff_distrib)
    then have "\<bar>of_int (round_half_even (x / ?u)) * ?u - x\<bar>
        = \<bar>of_int (round_half_even (x / ?u)) - x / ?u\<bar> * \<bar>?u\<bar>"
      by (simp only: abs_mult [symmetric])
    then show ?thesis using u by simp
  qed
  moreover have "1 / 2 * ?u = 2 powi (e - 53)"
  proof -
    have "(2::rat) powi ((e - 53) + 1) = 2 powi (e - 53) * 2"
      by (rule power_int_add_1) simp
    moreover have "e - 53 + 1 = e - 52" by simp
    ultimately have "?u = 2 powi (e - 53) * 2" by simp
    then show ?thesis by simp
  qed
  ultimately show "\<bar>binary64 x - x\<bar> \<le> 2 powi (e - 53)" using v by simp
qed

lemma binary64_exact:
  assumes "\<bar>k\<bar> < 2 ^ 53"
  shows "binary64 (of_int k * 2 powi p) = of_int k * 2 powi p"
proof (cases "k = 0")
  case True
  then show ?thesis by (simp add: binary64_def)
next
  case False
  let ?x = "of_int k * (2::rat) powi p"
  have pp: "(0::rat) < 2 powi p" by simp
  have ax: "\<bar>?x\<bar> = of_int \<bar>k\<bar> * 2 powi p" by (simp add: abs_mult)
  have x0: "0 < \<bar>?x\<bar>" using False by simp
  define e where "e = ilog2 \<bar>?x\<bar>"
  from ilog2_bounds [OF x0] have lo: "2 powi e \<le> \<bar>?x\<bar>" and hi: "\<bar>?x\<bar> < 2 powi (e + 1)"
    by (simp_all add: e_def)
  have "of_int \<bar>k\<bar> < (2::rat) ^ 53" using assms by (metis of_int_less_iff of_int_numeral of_int_power)
  then have "\<bar>?x\<bar> < 2 ^ 53 * 2 powi p" unfolding ax using pp by (intro mult_strict_right_mono)
  also have "\<dots> = 2 powi (53 + p)" by (simp add: power_int_add)
  finally have "2 powi e < (2::rat) powi (53 + p)" using lo by linarith
  then have "e < 53 + p" by (metis power_int_increasing not_le one_le_numeral)
  then have d: "0 \<le> p - (e - 52)" by simp
  define m where "m = nat (p - (e - 52))"
  have "(2::rat) powi p = 2 powi (e - 52) * 2 powi (p - (e - 52))"
    by (simp add: power_int_add [symmetric])
  also have "2 powi (p - (e - 52)) = (2::rat) ^ m" using d by (simp add: m_def power_int_def)
  finally have q: "?x / 2 powi (e - 52) = of_int (k * 2 ^ m)" by simp
  have "binary64 ?x = of_int (round_half_even (?x / 2 powi (e - 52))) * 2 powi (e - 52)"
    using False by (simp add: binary64_def Let_def e_def)
  also have "\<dots> = of_int (k * 2 ^ m) * 2 powi (e - 52)"
    unfolding q by (simp only: round_half_even_of_int)
  also have "\<dots> = ?x / 2 powi (e - 52) * 2 powi (e - 52)" by (simp only: q)
  also have "\<dots> = ?x" by simp
  finally show ?thesis .
qed

lemma binary64_zero [simp]: "binary64 0 = 0"
  by (simp add: binary64_def)

lemma cast_integer_unique:
  assumes "0 \<le> x" and "of_int k \<le> x" and "x < of_int k + 1"
  shows "cast_integer x = k"
  using assms by (simp add: cast_integer_def floor_unique)

lemma sql_sum_um:
  assumes "binary64 x = x"
  shows "sql_sum [x] = Some x"
  using assms by (simp add: sql_sum_def sum_step_def kbn_step_def sum_final_def Let_def)

lemma sql_sum_zero: "sql_sum [0] = Some 0"
  by (rule sql_sum_um) simp

lemma jd_0900: "julianday (instante 15 9 0 0) = 19682599 / 8"
  unfolding julianday_def
  using binary64_eqI [of 21 "of_int (iJD (instante 15 9 0 0)) / 86400000" 5283507437830144]
  by (simp add: iJD_def instante_def date_of_def dia_juliano_def)

lemma jd_0902: "julianday (instante 15 9 2 0) = 660438430101595 / 268435456"
  unfolding julianday_def
  using binary64_eqI [of 21 "of_int (iJD (instante 15 9 2 0)) / 86400000" 5283507440812760]
  by (simp add: iJD_def instante_def date_of_def dia_juliano_def)

lemma horas_0900_0902: "horas agora linha_0900_0902 = 1118481 / 33554432"
proof -
  have d: "binary64 (660438430101595 / 268435456 - 19682599 / 8) = 372827 / 268435456"
    using binary64_eqI [of "-10" "660438430101595 / 268435456 - 19682599 / 8" 6405119088263168]
    by simp
  have h: "binary64 (372827 / 268435456 * 24) = 1118481 / 33554432"
    using binary64_eqI [of "-5" "372827 / 268435456 * 24" 4803839316197376] by simp
  have "horas agora linha_0900_0902
      = binary64 (binary64 (julianday (instante 15 9 2 0) - julianday (instante 15 9 0 0)) * 24)"
    by (simp add: horas_def fim_efetivo_def linha_0900_0902_def)
  also have "\<dots> = binary64 (binary64 (660438430101595 / 268435456 - 19682599 / 8) * 24)"
    by (simp only: jd_0900 jd_0902)
  also have "\<dots> = binary64 (372827 / 268435456 * 24)" by (simp only: d)
  also have "\<dots> = 1118481 / 33554432" by (rule h)
  finally show ?thesis .
qed

section \<open>Daily totals\<close>

lemma foldl_consulta_passo:
  "foldl (consulta_passo hoje agora) acc rows =
     \<lparr>ac_total = foldl sum_step (ac_total acc)
        (map (horas agora) [r\<leftarrow>rows. date_of (data_hora r) = hoje]),
      ac_ativo = foldl sum_step (ac_ativo acc)
        (map (\<lambda>r. if status r = ''Ativo'' then horas agora r else 0)
           [r\<leftarrow>rows. date_of (data_hora r) = hoje]),
      ac_ocioso = foldl sum_step (ac_ocioso acc)
        (map (\<lambda>r. if status r = ''Ocioso'' then horas agora r else 0)
           [r\<leftarrow>rows. date_of (data_hora r) = hoje])\<rparr>"
proof (induction rows arbitrary: acc)
  case Nil
  show ?case by simp
next
  case (Cons r rows)
  show ?case
    using Cons.IH [of "consulta_passo hoje agora acc r"]
    by (simp add: consulta_passo_def)
qed

lemma consulta_somas_filtro:
  "consulta_somas hoje agora rows =
     \<lparr>soma_total = sql_sum (map (horas agora) [r\<leftarrow>rows. date_of (data_hora r) = hoje]),
      soma_ativo = sql_sum (map (\<lambda>r. if status r = ''Ativo'' then horas agora r else 0)
                     [r\<leftarrow>rows. date_of (data_hora r) = hoje]),
      soma_ocioso = sql_sum (map (\<lambda>r. if status r = ''Ocioso'' then horas agora r else 0)
                     [r\<leftarrow>rows. date_of (data_hora r) = hoje])\<rparr>"
  by (simp add: consulta_somas_def foldl_consulta_passo sql_sum_def Let_def)

lemma sql_sum_Nil: "sql_sum [] = None"
  by (simp add: sql_sum_def sum_final_def)

lemma printf_hhmm_None: "printf_hhmm None = ''00:00''"
  by (simp add: printf_hhmm_def fmt_02d_def digitos.simps)

lemma printf_hhmm_zero: "printf_hhmm (Some 0) = ''00:00''"
  by (simp add: printf_hhmm_def fmt_02d_def digitos.simps cast_integer_def sql_mod60_def)

lemma somas_0900_0902:
  "consulta_somas (2024, 1, 15) agora [linha_0900_0902] =
     \<lparr>soma_total = Some (1118481 / 33554432), soma_ativo = Some (1118481 / 33554432),
      soma_ocioso = Some 0\<rparr>"
proof -
  have b: "binary64 (1118481 / 33554432) = 1118481 / 33554432"
    using binary64_eqI [of "-5" "1118481 / 33554432" 4803839316197376] by simp
  have d: "date_of (data_hora linha_0900_0902) = (2024, 1, 15)"
    and s: "status linha_0900_0902 = ''Ativo''"
    by (simp_all add: linha_0900_0902_def instante_def date_of_def)
  show ?thesis
    unfolding consulta_somas_filtro
    by (simp add: d s horas_0900_0902 sql_sum_um [OF b] sql_sum_zero)
qed

lemma printf_hhmm_0900_0902: "printf_hhmm (Some (1118481 / 33554432)) = ''00:01''"
proof -
  have c: "cast_integer (1118481 / 33554432) = 0"
    by (rule cast_integer_unique) simp_all
  have m: "binary64 (1118481 / 33554432 * 60) = 16777215 / 8388608"
    using binary64_eqI [of 0 "1118481 / 33554432 * 60" 9007198717870080] by simp
  have c1: "cast_integer (16777215 / 8388608) = 1"
    by (rule cast_integer_unique) simp_all
  show ?thesis
    unfolding printf_hhmm_def option.case c m sql_mod60_def c1
    by (simp add: fmt_02d_def digitos.simps)
qed

lemma round2_zero: "round2 0 = 0"
proof -
  have "\<lfloor>(1::rat) / 2\<rfloor> = 0" by (rule floor_unique) simp_all
  then show ?thesis by (simp add: round2_def)
qed

lemma percentual_zero: "t \<noteq> 0 \<Longrightarrow> percentual (Some 0) (Some t) = Some 0"
  by (simp add: percentual_def sql_round2_def round2_zero)

text \<open>
  Claim C8, at the input where the code departs from it. The only interval of the day is
  Active from 09:00:00 to 09:02:00, 120 seconds by the direct second difference, which
  prints as 00:02. The query prints 00:01 for the total and for the active time: the
  rounded Julian days differ by a little less than two minutes, and the minutes are
  truncated.
\<close>

theorem dois_minutos_impressos:
  "horas_do_dia True (2024, 1, 15) agora [linha_0900_0902]
     = (''00:01'', ''00:01'', ''00:00'', Some 0)
   \<and> total_seconds (data_hora linha_0900_0902) (fim_efetivo agora linha_0900_0902) = 120
   \<and> fmt_02d (120 div 3600) @ '':'' @ fmt_02d (120 div 60 mod 60) = ''00:02''"
proof (intro conjI)
  show "horas_do_dia True (2024, 1, 15) agora [linha_0900_0902]
     = (''00:01'', ''00:01'', ''00:00'', Some 0)"
    unfolding horas_do_dia_def executar_fetch_def consulta_horas_def Let_def somas_0900_0902
    by (simp add: printf_hhmm_0900_0902 printf_hhmm_zero percentual_zero)
  show "total_seconds (data_hora linha_0900_0902) (fim_efetivo agora linha_0900_0902) = 120"
    by (simp add: total_seconds_def linha_0900_0902_def fim_efetivo_def instante_def date_of_def)
  show "fmt_02d (120 div 3600) @ '':'' @ fmt_02d (120 div 60 mod 60) = ''00:02''"
    by (simp add: fmt_02d_def digitos.simps)
qed

text \<open>
  Claim C5, at the input where the code departs from it. When no row of the table
  starts on the selected day, the query still returns one row; its three durations
  print as 00:00, but the percentage is NULL, and \<^verbatim>\<open>pct_ociosas\<close> becomes \<^verbatim>\<open>None\<close>: the
  branch that sets it to 0 is not taken.
\<close>

theorem dia_sem_intervalos:
  "horas_do_dia True hoje agora [r\<leftarrow>rows. date_of (data_hora r) \<noteq> hoje]
     = (''00:00'', ''00:00'', ''00:00'', None)"
proof -
  have "[r\<leftarrow>[r\<leftarrow>rows. date_of (data_hora r) \<noteq> hoje]. date_of (data_hora r) = hoje] = []"
    by (induction rows) auto
  then have "consulta_somas hoje agora [r\<leftarrow>rows. date_of (data_hora r) \<noteq> hoje]
      = \<lparr>soma_total = None, soma_ativo = None, soma_ocioso = None\<rparr>"
    by (simp add: consulta_somas_filtro sql_sum_Nil)
  then show ?thesis
    by (simp add: horas_do_dia_def executar_fetch_def consulta_horas_def printf_hhmm_None
        percentual_def)
qed

section \<open>The per-minute grid\<close>

lemma length_fold_pintar:
  "length (fold (\<lambda>i cs. if i < n then cs[i := c] else cs) xs cs) = length cs"
  by (induction xs arbitrary: cs) auto

lemma nth_upd: "j < length cs \<Longrightarrow> cs[a := l] ! j = (if a = j then l else cs ! j)"
  by (cases "a = j") auto

lemma nth_fold_pintar:
  "j < length cs \<Longrightarrow>
   fold (\<lambda>i cs. if i < n then cs[i := c] else cs) xs cs ! j
     = (if j \<in> set xs \<and> j < n then c else cs ! j)"
  by (induction xs arbitrary: cs) (auto simp: nth_list_update)

lemma length_pintar: "length (pintar a b c cs) = length cs"
  by (simp add: pintar_def length_fold_pintar)

lemma nth_pintar:
  "j < length cs \<Longrightarrow>
   pintar a b c cs ! j = (if a \<le> j \<and> j \<le> b \<and> j < 1440 then c else cs ! j)"
  by (auto simp: pintar_def nth_fold_pintar)

lemma pintar_vazio: "b < a \<Longrightarrow> pintar a b c cs = cs"
  by (simp add: pintar_def)

lemma length_fold_comercial:
  "length (fold (\<lambda>m cs. if cs ! m = g then cs[m := l] else cs) xs cs) = length cs"
  by (induction xs arbitrary: cs) auto

lemma nth_fold_comercial:
  "j < length cs \<Longrightarrow> g \<noteq> l \<Longrightarrow>
   fold (\<lambda>m cs. if cs ! m = g then cs[m := l] else cs) xs cs ! j
     = (if j \<in> set xs \<and> cs ! j = g then l else cs ! j)"
  by (induction xs arbitrary: cs) (auto simp: nth_upd)

lemma length_horario_comercial: "length (horario_comercial cs) = length cs"
  unfolding horario_comercial_def by (rule length_fold_comercial)

lemma nth_horario_comercial:
  "j < length cs \<Longrightarrow>
   horario_comercial cs ! j
     = (if 480 \<le> j \<and> j < 1080 \<and> cs ! j = ''gray'' then ''lightblue'' else cs ! j)"
proof -
  assume j: "j < length cs"
  have ne: "''gray'' \<noteq> ''lightblue''" by simp
  have m: "(j \<in> set [8 * 60..<18 * 60]) = (480 \<le> j \<and> j < 1080)"
    unfolding set_upt atLeastLessThan_iff by simp
  show ?thesis
    unfolding horario_comercial_def nth_fold_comercial [OF j ne] m by simp
qed

lemma length_processar_linha: "length (processar_linha hoje row cs) = length cs"
  by (simp add: processar_linha_def length_pintar split: prod.splits)

lemma length_fold_processar:
  "length (fold (processar_linha hoje) rs cs) = length cs"
  by (induction rs arbitrary: cs) (auto simp: length_processar_linha)

lemma length_cores: "length (cores ok hoje agora rows) = 1440"
  by (simp add: cores_def length_horario_comercial length_fold_processar)

lemma cores_um_intervalo:
  assumes "i < 1440" and "date_of (data_hora r) = hoje"
  shows "cores True hoje agora [r] ! i =
           (if hour (data_hora r) * 60 + minute (data_hora r) \<le> i
               \<and> i \<le> hour (fim_efetivo agora r) * 60 + minute (fim_efetivo agora r)
            then (if status r = ''Ativo'' then ''green'' else ''red'')
            else if 480 \<le> i \<and> i < 1080 then ''lightblue'' else ''gray'')"
  using assms
  by (auto simp: cores_def linhas_canvas_def executar_fetch_def select_linhas_def
      processar_linha_def nth_horario_comercial length_pintar nth_pintar)

lemma processar_linha_invertida:
  "hour fim * 60 + minute fim < hour inicio * 60 + minute inicio \<Longrightarrow>
   processar_linha hoje (st, inicio, fim) cs = cs"
  by (simp add: processar_linha_def pintar_vazio)

lemma fold_processar_outros_dias:
  assumes "\<forall>x\<in>set rows. date_of (data_hora x) \<noteq> hoje"
  shows "fold (processar_linha hoje) (select_linhas agora rows) cs = cs"
  using assms by (induction rows arbitrary: cs) (simp_all add: select_linhas_def processar_linha_def)

lemma cores_unico_intervalo_do_dia:
  assumes "\<forall>x\<in>set antes \<union> set depois. date_of (data_hora x) \<noteq> hoje"
  shows "cores True hoje agora (antes @ r # depois) = cores True hoje agora [r]"
proof -
  have a: "\<forall>x\<in>set antes. date_of (data_hora x) \<noteq> hoje"
    and d: "\<forall>x\<in>set depois. date_of (data_hora x) \<noteq> hoje"
    using assms by auto
  have s: "select_linhas agora (antes @ r # depois)
      = select_linhas agora antes @ select_linhas agora [r] @ select_linhas agora depois"
    by (simp add: select_linhas_def)
  show ?thesis
    unfolding cores_def linhas_canvas_def executar_fetch_def
    by (simp add: s fold_processar_outros_dias [OF a] fold_processar_outros_dias [OF d])
qed

text \<open>
  Claim C9, as amended. Let the interval Active from 09:00 to 09:02 (whatever the
  seconds) be the only row of the table that starts on the selected day; rows that start
  on other days may stand before and after it. Then the grid has 1440 slots; slots 540,
  541 and 542 are green, the end minute included; every other slot from 08:00 to 17:59 is
  light blue and the rest gray.
\<close>

theorem grade_0900_0902:
  assumes "status r = ''Ativo''"
    and "data_hora r = \<lparr>year = y, month = m, day = d, hour = 9, minute = 0, second = s1\<rparr>"
    and "data_hora_final r = Some \<lparr>year = y, month = m, day = d, hour = 9, minute = 2, second = s2\<rparr>"
    and "\<forall>x\<in>set antes \<union> set depois. date_of (data_hora x) \<noteq> (y, m, d)"
  shows "length (cores True (y, m, d) agora (antes @ r # depois)) = 1440 \<and>
         (\<forall>i<1440. cores True (y, m, d) agora (antes @ r # depois) ! i =
            (if i = 540 \<or> i = 541 \<or> i = 542 then ''green''
             else if 480 \<le> i \<and> i < 1080 then ''lightblue'' else ''gray''))"
proof (intro conjI allI impI)
  show "length (cores True (y, m, d) agora (antes @ r # depois)) = 1440" by (rule length_cores)
next
  fix i :: nat assume i: "i < 1440"
  have d: "date_of (data_hora r) = (y, m, d)" using assms(2) by (simp add: date_of_def)
  have "(540 \<le> i \<and> i \<le> 542) = (i = 540 \<or> i = 541 \<or> i = 542)" by arith
  then show "cores True (y, m, d) agora (antes @ r # depois) ! i =
            (if i = 540 \<or> i = 541 \<or> i = 542 then ''green''
             else if 480 \<le> i \<and> i < 1080 then ''lightblue'' else ''gray'')"
    unfolding cores_unico_intervalo_do_dia [OF assms(4)]
    using cores_um_intervalo [OF i d, of agora] assms(1,2,3) by (simp add: fim_efetivo_def)
qed

text \<open>
  The table of the witness holds an open Active row of 14 January at 17:00 before the
  interval and an Idle row of 16 January at 01:00 after it: neither paints a slot of the
  15th, and slot 1020 (17:00) is light blue.
\<close>

theorem grade_0900_0902_witness:
  "cores True (2024, 1, 15) (instante 15 12 0 0) ([linha_antiga] @ linha_0900_0902 # [linha_aberta]) ! 479 = ''gray'' \<and>
   cores True (2024, 1, 15) (instante 15 12 0 0) ([linha_antiga] @ linha_0900_0902 # [linha_aberta]) ! 539 = ''lightblue'' \<and>
   cores True (2024, 1, 15) (instante 15 12 0 0) ([linha_antiga] @ linha_0900_0902 # [linha_aberta]) ! 540 = ''green'' \<and>
   cores True (2024, 1, 15) (instante 15 12 0 0) ([linha_antiga] @ linha_0900_0902 # [linha_aberta]) ! 541 = ''green'' \<and>
   cores True (2024, 1, 15) (instante 15 12 0 0) ([linha_antiga] @ linha_0900_0902 # [linha_aberta]) ! 542 = ''green'' \<and>
   cores True (2024, 1, 15) (instante 15 12 0 0) ([linha_antiga] @ linha_0900_0902 # [linha_aberta]) ! 543 = ''lightblue'' \<and>
   cores True (2024, 1, 15) (instante 15 12 0 0) ([linha_antiga] @ linha_0900_0902 # [linha_aberta]) ! 1020 = ''lightblue''"
proof -
  have h1: "status linha_0900_0902 = ''Ativo''"
    by (simp add: linha_0900_0902_def)
  have h2: "data_hora linha_0900_0902 =
      \<lparr>year = 2024, month = 1, day = 15, hour = 9, minute = 0, second = 0\<rparr>"
    by (simp add: linha_0900_0902_def instante_def)
  have h3: "data_hora_final linha_0900_0902 =
      Some \<lparr>year = 2024, month = 1, day = 15, hour = 9, minute = 2, second = 0\<rparr>"
    by (simp add: linha_0900_0902_def instante_def)
  have h4: "\<forall>x\<in>set [linha_antiga] \<union> set [linha_aberta]. date_of (data_hora x) \<noteq> (2024, 1, 15)"
    by (simp add: linha_antiga_def linha_aberta_def instante_def date_of_def)
  note g = grade_0900_0902 [OF h1 h2 h3 h4, of "instante 15 12 0 0", THEN conjunct2, rule_format]
  show ?thesis
    using g [of 479] g [of 539] g [of 540] g [of 541] g [of 542] g [of 543] g [of 1020] by simp
qed

text \<open>
  Claim C9 as written has exactly slots 540 and 541 marked; slot 542 is marked too.
\<close>

theorem slot_542_counterexample:
  "cores True (2024, 1, 15) (instante 15 12 0 0) [linha_0900_0902] ! 542 = ''green''"
proof -
  have d: "date_of (data_hora linha_0900_0902) = (2024, 1, 15)"
    by (simp add: linha_0900_0902_def instante_def date_of_def)
  have "(542::nat) < 1440" by simp
  from cores_um_intervalo [OF this d, of "instante 15 12 0 0"] show ?thesis
    by (simp add: linha_0900_0902_def instante_def fim_efetivo_def)
qed

text \<open>
  Claim C10. An interval that starts on the selected day and whose effective end has a
  smaller minute of the day than its start paints no slot: the loop body leaves the
  colours as they are, and the grid is the grid of the table without that row.
\<close>

theorem intervalo_invertido_nao_marca:
  assumes "date_of (data_hora r) = hoje"
    and "hour (fim_efetivo agora r) * 60 + minute (fim_efetivo agora r)
           < hour (data_hora r) * 60 + minute (data_hora r)"
  shows "processar_linha hoje (status r, data_hora r, fim_efetivo agora r) colors = colors
       \<and> cores ok hoje agora (antes @ r # depois) = cores ok hoje agora (antes @ depois)"
  using assms(2)
  by (simp add: processar_linha_invertida cores_def linhas_canvas_def executar_fetch_def
      select_linhas_def)

theorem intervalo_invertido_nao_marca_witness:
  "date_of (data_hora linha_meia_noite) = (2024, 1, 15)
   \<and> hour (fim_efetivo (instante 16 2 0 0) linha_meia_noite) * 60
       + minute (fim_efetivo (instante 16 2 0 0) linha_meia_noite)
     < hour (data_hora linha_meia_noite) * 60 + minute (data_hora linha_meia_noite)
   \<and> processar_linha (2024, 1, 15)
       (status linha_meia_noite, data_hora linha_meia_noite,
        fim_efetivo (instante 16 2 0 0) linha_meia_noite) [''gray'', ''gray'']
     = [''gray'', ''gray'']
   \<and> cores True (2024, 1, 15) (instante 16 2 0 0) ([] @ linha_meia_noite # [linha_aberta])
     = cores True (2024, 1, 15) (instante 16 2 0 0) ([] @ [linha_aberta])"
proof -
  have a: "date_of (data_hora linha_meia_noite) = (2024, 1, 15)"
    by (simp add: linha_meia_noite_def instante_def date_of_def)
  have b: "hour (fim_efetivo (instante 16 2 0 0) linha_meia_noite) * 60
       + minute (fim_efetivo (instante 16 2 0 0) linha_meia_noite)
     < hour (data_hora linha_meia_noite) * 60 + minute (data_hora linha_meia_noite)"
    by (simp add: linha_meia_noite_def instante_def fim_efetivo_def)
  from intervalo_invertido_nao_marca [OF a b] a b show ?thesis
    by blast
qed

section \<open>The trackers\<close>

lemmas tracker_defs =
  tick_def registrar_status_def registrar_programa_def executar_def truthy_def
  update_log_atividade_def where_log_atividade_def insert_log_atividade_def
  update_programas_documentos_def where_programas_documentos_def
  insert_programas_documentos_def sql_eq_def proximo_id_def LIMITE_OCIOSO_def
  amostra_ok_def init_def banco_vazio_def instante_def

subsection \<open>The status series from an empty store\<close>

text \<open>
  When the status writes succeed, every run of the poll loop that starts on the empty
  store leaves at most one open row in \<^verbatim>\<open>log_atividade\<close>, and its rows are chained.
\<close>

lemma encadeada_snoc:
  "encadeada (bs @ [l]) \<Longrightarrow> data_hora n = t \<Longrightarrow>
   encadeada (bs @ [l\<lparr>data_hora_final := Some t\<rparr>, n])"
proof (induction bs)
  case Nil
  then show ?case by simp
next
  case (Cons b bs)
  then show ?case by (cases bs) auto
qed

lemma update_log_fecha_ultima:
  assumes "list_all (\<lambda>r. data_hora_final r \<noteq> None) bs" and "where_log_atividade st l"
  shows "update_log_atividade agora st (bs @ [l]) = bs @ [l\<lparr>data_hora_final := Some agora\<rparr>]"
proof -
  have "map (\<lambda>r. if where_log_atividade st r then r\<lparr>data_hora_final := Some agora\<rparr> else r) bs = bs"
    using assms(1) by (induction bs) (auto simp: where_log_atividade_def)
  then show ?thesis using assms(2) by (simp add: update_log_atividade_def)
qed

lemma inv_status_registrar_status:
  assumes "inv_status s" and "novo \<noteq> []"
  shows "inv_status (registrar_status agora True True novo s)"
proof (cases "status_atual s")
  case None
  with assms show ?thesis
    by (simp add: inv_status_def registrar_status_def executar_def insert_log_atividade_def
        where_log_atividade_def)
next
  case (Some st)
  show ?thesis
  proof (cases "st = novo")
    case True
    with Some assms show ?thesis by (simp add: registrar_status_def)
  next
    case False
    let ?la = "log_atividade (db s)"
    from assms(1) Some have st: "st \<noteq> []" and ne: "?la \<noteq> []"
      and w: "where_log_atividade st (last ?la)"
      and cl: "list_all (\<lambda>r. data_hora_final r \<noteq> None) (butlast ?la)"
      and ch: "encadeada ?la"
      by (simp_all add: inv_status_def Let_def)
    from ne have la: "?la = butlast ?la @ [last ?la]" by simp
    have up: "update_log_atividade agora st ?la
        = butlast ?la @ [(last ?la)\<lparr>data_hora_final := Some agora\<rparr>]"
      using update_log_fecha_ultima [OF cl w, of agora] la by simp
    let ?n = "\<lparr>row_id = proximo_id (map row_id (update_log_atividade agora st ?la)),
               status = novo, data_hora = agora, data_hora_final = None\<rparr>"
    have ch': "encadeada (butlast ?la @ [(last ?la)\<lparr>data_hora_final := Some agora\<rparr>, ?n])"
      using ch la encadeada_snoc [of "butlast ?la" "last ?la" ?n agora] by simp
    have res: "log_atividade (db (registrar_status agora True True novo s))
        = butlast ?la @ [(last ?la)\<lparr>data_hora_final := Some agora\<rparr>, ?n]"
      using Some False st up
      by (simp add: registrar_status_def executar_def insert_log_atividade_def Let_def)
    have sa: "status_atual (registrar_status agora True True novo s) = Some novo"
      using Some False by (simp add: registrar_status_def Let_def)
    have bl: "butlast (butlast ?la @ [(last ?la)\<lparr>data_hora_final := Some agora\<rparr>, ?n])
        = butlast ?la @ [(last ?la)\<lparr>data_hora_final := Some agora\<rparr>]"
      by (simp add: butlast_append)
    show ?thesis
      unfolding inv_status_def Let_def sa res option.case bl
      using assms(2) cl ch' by (simp add: where_log_atividade_def)
  qed
qed

lemma registrar_programa_log:
  "registrar_programa agora ok_u ok_i app titulo s = Inr s' \<Longrightarrow>
   log_atividade (db s') = log_atividade (db s) \<and> status_atual s' = status_atual s"
  by (auto simp: registrar_programa_def Let_def split: if_splits)

lemma inv_status_registrar_programa:
  "registrar_programa agora ok_u ok_i app titulo s = Inr s' \<Longrightarrow> inv_status s' = inv_status s"
  using registrar_programa_log [of agora ok_u ok_i app titulo s s']
  by (simp add: inv_status_def)

lemma inv_status_tick:
  assumes "inv_status s" and "ok_status_update a" and "ok_status_insert a"
    and "tick limite a s = Inr s'"
  shows "inv_status s'"
proof -
  let ?st = "if idle_time a \<ge> limite then ''Ocioso'' else ''Ativo''"
  let ?s1 = "registrar_status (agora_status a) True True ?st s"
  have "?st \<noteq> []" by simp
  then have i1: "inv_status ?s1" using assms(1) by (rule inv_status_registrar_status [rotated])
  show ?thesis
  proof (cases "fst (foco a) \<noteq> ultimo_app ?s1 \<or> snd (foco a) \<noteq> ultimo_titulo ?s1")
    case True
    then have "registrar_programa (agora_programa a) (ok_programa_update a)
        (ok_programa_insert a) (fst (foco a)) (snd (foco a)) ?s1 = Inr s'"
      using assms(2,3,4) by (simp add: tick_def Let_def)
    then show ?thesis using i1 inv_status_registrar_programa by blast
  next
    case False
    then have "s' = ?s1" using assms(2,3,4) by (simp add: tick_def Let_def)
    then show ?thesis using i1 by simp
  qed
qed

lemma inv_status_monitorar:
  "inv_status s \<Longrightarrow> list_all (\<lambda>a. ok_status_update a \<and> ok_status_insert a) run \<Longrightarrow>
   monitorar limite run s = Inr s' \<Longrightarrow> inv_status s'"
proof (induction run arbitrary: s)
  case Nil
  then show ?case by simp
next
  case (Cons a run)
  from Cons.prems(3) obtain s1 where t: "tick limite a s = Inr s1"
    and m: "monitorar limite run s1 = Inr s'"
    by (auto split: sum.splits)
  from Cons.prems(1,2) t have "inv_status s1" by (auto intro: inv_status_tick)
  with Cons.IH [of s1] Cons.prems(2) m show ?case by simp
qed

lemma inv_status_init: "inv_status (init banco_vazio)"
  by (simp add: inv_status_def init_def banco_vazio_def)

lemma inv_status_abertas:
  assumes "inv_status s"
  shows "length [r\<leftarrow>log_atividade (db s). data_hora_final r = None] \<le> 1
       \<and> encadeada (log_atividade (db s))"
proof (cases "status_atual s")
  case None
  with assms show ?thesis by (simp add: inv_status_def)
next
  case (Some st)
  let ?la = "log_atividade (db s)"
  from assms Some have ne: "?la \<noteq> []"
    and cl: "list_all (\<lambda>r. data_hora_final r \<noteq> None) (butlast ?la)"
    and ch: "encadeada ?la"
    by (simp_all add: inv_status_def Let_def)
  from cl have "[r\<leftarrow>butlast ?la. data_hora_final r = None] = []"
    by (induction "butlast ?la") (auto simp: list_all_iff filter_empty_conv)
  moreover from ne have "?la = butlast ?la @ [last ?la]" by simp
  ultimately have "[r\<leftarrow>?la. data_hora_final r = None]
      = [r\<leftarrow>[last ?la]. data_hora_final r = None]"
    by (metis append_Nil filter_append)
  then have "length [r\<leftarrow>?la. data_hora_final r = None] \<le> 1" by simp
  with ch show ?thesis by simp
qed

lemma serie_status_de_banco_vazio:
  assumes "list_all (\<lambda>a. ok_status_update a \<and> ok_status_insert a) run"
    and "monitorar limite run (init banco_vazio) = Inr s"
  shows "length [r\<leftarrow>log_atividade (db s). data_hora_final r = None] \<le> 1
       \<and> encadeada (log_atividade (db s))"
  using inv_status_abertas [OF inv_status_monitorar [OF inv_status_init assms]] .

subsection \<open>One clock reading for the close and the open\<close>

text \<open>
  A call that records a transition appends one row that starts at \<^verbatim>\<open>agora\<close>; every
  stored row is either unchanged or has had its end set to that same \<^verbatim>\<open>agora\<close>.
\<close>

lemma registrar_programa_mesmo_instante:
  assumes "registrar_programa agora ok_u ok_i app titulo s = Inr s'"
  shows "\<exists>pd1. programas_documentos (db s') =
           pd1 @ [\<lparr>prog_id = proximo_id (map prog_id pd1), nome_programa = app,
                   nome_documento = titulo, data_hora_inicio = agora,
                   prog_data_hora_final = None\<rparr>]
         \<and> length pd1 = length (programas_documentos (db s))
         \<and> (\<forall>i<length pd1. pd1 ! i = programas_documentos (db s) ! i
               \<or> pd1 ! i = (programas_documentos (db s) ! i)\<lparr>prog_data_hora_final := Some agora\<rparr>)"
  using assms
  by (auto simp: registrar_programa_def Let_def insert_programas_documentos_def
      update_programas_documentos_def split: if_splits option.splits)

lemma registrar_status_mesmo_instante:
  assumes "status_atual s \<noteq> Some novo"
  shows "\<exists>la1. log_atividade (db (registrar_status agora True True novo s)) =
           la1 @ [\<lparr>row_id = proximo_id (map row_id la1), status = novo, data_hora = agora,
                   data_hora_final = None\<rparr>]
         \<and> length la1 = length (log_atividade (db s))
         \<and> (\<forall>i<length la1. la1 ! i = log_atividade (db s) ! i
               \<or> la1 ! i = (log_atividade (db s) ! i)\<lparr>data_hora_final := Some agora\<rparr>)"
  using assms
  by (auto simp: registrar_status_def Let_def executar_def insert_log_atividade_def
      update_log_atividade_def split: if_splits option.splits)

subsection \<open>The focus series after a poll without a focused window\<close>

text \<open>
  Claim C7, at the input where the code departs from it. After the polls \<^verbatim>\<open>a.exe\<close> and
  "no window", the tracker holds the pair \<^verbatim>\<open>(None, None)\<close> and the table holds an open row
  for it. The next poll sees \<^verbatim>\<open>b.exe\<close>: \<^verbatim>\<open>registrar_programa\<close> skips the \<^verbatim>\<open>UPDATE\<close>
  because \<^verbatim>\<open>ultimo_app\<close> is \<^verbatim>\<open>None\<close>, and only appends the new row; the row of
  \<^verbatim>\<open>(None, None)\<close> keeps its NULL end.
\<close>

theorem sem_foco_nao_fecha:
  "monitorar LIMITE_OCIOSO (take 2 run_foco) (init banco_vazio) = Inr estado_sem_foco
   \<and> registrar_programa (instante 15 9 0 10) True True (Some ''b.exe'') (Some ''U'') estado_sem_foco
     = Inr (estado_sem_foco
         \<lparr>db := (db estado_sem_foco)
            \<lparr>programas_documentos := programas_documentos (db estado_sem_foco) @
               [\<lparr>prog_id = 3, nome_programa = Some ''b.exe'', nome_documento = Some ''U'',
                 data_hora_inicio = instante 15 9 0 10, prog_data_hora_final = None\<rparr>]\<rparr>,
          ultimo_app := Some ''b.exe'', ultimo_titulo := Some ''U'',
          inicio_app := Some (instante 15 9 0 10)\<rparr>)"
  by (simp add: run_foco_def estado_sem_foco_def tracker_defs Let_def)

text \<open>
  Claim C2, at the same run from the empty store: after the third poll the focus series
  has two open rows.
\<close>

theorem duas_abertas_foco:
  "(case monitorar LIMITE_OCIOSO run_foco (init banco_vazio) of
      Inl e \<Rightarrow> False
    | Inr s \<Rightarrow> length [r\<leftarrow>programas_documentos (db s). prog_data_hora_final r = None] = 2)"
  by (simp add: run_foco_def tracker_defs Let_def)

text \<open>
  Claim C1, at the same run: the second and third focus rows are successive, the end of
  the second is NULL and the third starts at 09:00:10. The first two rows are chained at
  09:00:05.
\<close>

theorem cadeia_quebrada_foco:
  "(case monitorar LIMITE_OCIOSO run_foco (init banco_vazio) of
      Inl e \<Rightarrow> False
    | Inr s \<Rightarrow> map (\<lambda>r. (nome_programa r, data_hora_inicio r, prog_data_hora_final r)) (programas_documentos (db s))
               = [(Some ''a.exe'', instante 15 9 0 0, Some (instante 15 9 0 5)),
                  (None, instante 15 9 0 5, None),
                  (Some ''b.exe'', instante 15 9 0 10, None)])"
  by (simp add: run_foco_def tracker_defs Let_def)

subsection \<open>Closing an open interval\<close>

lemma where_programas_documentos_iff:
  "where_programas_documentos app titulo ini r =
     (nome_programa r = app \<and> app \<noteq> None \<and> nome_documento r = titulo \<and> titulo \<noteq> None
        \<and> data_hora_inicio r = ini \<and> prog_data_hora_final r = None)"
  by (auto simp: where_programas_documentos_def sql_eq_def split: option.splits)

lemma update_programas_noop:
  "\<forall>r\<in>set ps. \<not> where_programas_documentos app titulo ini r \<Longrightarrow>
   update_programas_documentos agora app titulo ini ps = ps"
  by (induction ps) (auto simp: update_programas_documentos_def)

lemma update_programas_idem:
  "update_programas_documentos agora' app titulo ini
     (update_programas_documentos agora app titulo ini ps)
   = update_programas_documentos agora app titulo ini ps"
  by (induction ps) (auto simp: update_programas_documentos_def where_programas_documentos_def)

lemma update_log_noop:
  "\<forall>r\<in>set ls. \<not> where_log_atividade st r \<Longrightarrow> update_log_atividade agora st ls = ls"
  by (induction ls) (auto simp: update_log_atividade_def)

lemma update_log_idem:
  "update_log_atividade agora' st (update_log_atividade agora st ls)
   = update_log_atividade agora st ls"
  by (induction ls) (auto simp: update_log_atividade_def where_log_atividade_def)

text \<open>
  Claim C3, as amended. The focus \<^verbatim>\<open>UPDATE\<close> keeps the number of rows and sets the end on
  exactly the open rows whose program, document and start equal the given non-NULL key;
  it changes nothing when no row passes its \<^verbatim>\<open>WHERE\<close> clause, and running it again, even
  with another end, changes nothing more. The status \<^verbatim>\<open>UPDATE\<close> is keyed on the status
  alone: it sets the end on every open row of that status, whatever its start, leaves
  every other row as it is, changes nothing when no open row has the status, and running
  it again changes nothing more.
\<close>

theorem fechamento_por_chave:
  "length (update_programas_documentos agora app titulo ini ps) = length ps
   \<and> (\<forall>i<length ps. update_programas_documentos agora app titulo ini ps ! i =
        (if nome_programa (ps ! i) = app \<and> app \<noteq> None
            \<and> nome_documento (ps ! i) = titulo \<and> titulo \<noteq> None
            \<and> data_hora_inicio (ps ! i) = ini \<and> prog_data_hora_final (ps ! i) = None
         then (ps ! i)\<lparr>prog_data_hora_final := Some agora\<rparr> else ps ! i))
   \<and> ((\<forall>r\<in>set ps. \<not> where_programas_documentos app titulo ini r) \<longrightarrow>
         update_programas_documentos agora app titulo ini ps = ps)
   \<and> update_programas_documentos agora' app titulo ini
         (update_programas_documentos agora app titulo ini ps)
       = update_programas_documentos agora app titulo ini ps
   \<and> length (update_log_atividade agora st ls) = length ls
   \<and> (\<forall>i<length ls. update_log_atividade agora st ls ! i =
        (if status (ls ! i) = st \<and> data_hora_final (ls ! i) = None
         then (ls ! i)\<lparr>data_hora_final := Some agora\<rparr> else ls ! i))
   \<and> ((\<forall>r\<in>set ls. \<not> where_log_atividade st r) \<longrightarrow> update_log_atividade agora st ls = ls)
   \<and> update_log_atividade agora' st (update_log_atividade agora st ls)
       = update_log_atividade agora st ls"
proof (intro conjI allI impI)
  show "length (update_programas_documentos agora app titulo ini ps) = length ps"
    by (simp add: update_programas_documentos_def)
  show "length (update_log_atividade agora st ls) = length ls"
    by (simp add: update_log_atividade_def)
next
  fix i assume "i < length ps"
  then show "update_programas_documentos agora app titulo ini ps ! i =
        (if nome_programa (ps ! i) = app \<and> app \<noteq> None
            \<and> nome_documento (ps ! i) = titulo \<and> titulo \<noteq> None
            \<and> data_hora_inicio (ps ! i) = ini \<and> prog_data_hora_final (ps ! i) = None
         then (ps ! i)\<lparr>prog_data_hora_final := Some agora\<rparr> else ps ! i)"
    by (simp add: update_programas_documentos_def where_programas_documentos_iff)
next
  fix i assume "i < length ls"
  then show "update_log_atividade agora st ls ! i =
        (if status (ls ! i) = st \<and> data_hora_final (ls ! i) = None
         then (ls ! i)\<lparr>data_hora_final := Some agora\<rparr> else ls ! i)"
    by (simp add: update_log_atividade_def where_log_atividade_def)
qed (simp_all add: update_programas_noop update_programas_idem update_log_noop update_log_idem)

theorem fechamento_por_chave_witness:
  "update_programas_documentos (instante 15 9 0 10) (Some ''a.exe'') (Some ''T'') (instante 15 9 0 5)
       [foco_aberto 1 (instante 15 9 0 0), foco_aberto 2 (instante 15 9 0 5)] ! 0
     = foco_aberto 1 (instante 15 9 0 0)
   \<and> update_programas_documentos (instante 15 9 0 10) (Some ''a.exe'') (Some ''T'') (instante 15 9 0 5)
       [foco_aberto 1 (instante 15 9 0 0), foco_aberto 2 (instante 15 9 0 5)] ! 1
     = (foco_aberto 2 (instante 15 9 0 5))\<lparr>prog_data_hora_final := Some (instante 15 9 0 10)\<rparr>
   \<and> update_programas_documentos (instante 15 9 0 10) (Some ''a.exe'') (Some ''T'') (instante 15 9 0 7)
       [foco_aberto 1 (instante 15 9 0 0), foco_aberto 2 (instante 15 9 0 5)]
     = [foco_aberto 1 (instante 15 9 0 0), foco_aberto 2 (instante 15 9 0 5)]
   \<and> update_log_atividade (instante 15 9 5 0) ''Ativo'' [linha_antiga, linha_corrente] ! 0
     = linha_antiga\<lparr>data_hora_final := Some (instante 15 9 5 0)\<rparr>
   \<and> update_log_atividade (instante 15 9 5 0) ''Ativo'' [linha_antiga, linha_corrente] ! 1
     = linha_corrente\<lparr>data_hora_final := Some (instante 15 9 5 0)\<rparr>
   \<and> update_log_atividade (instante 15 9 5 0) ''Ocioso'' [linha_antiga, linha_corrente]
     = [linha_antiga, linha_corrente]"
proof -
  let ?ps = "[foco_aberto 1 (instante 15 9 0 0), foco_aberto 2 (instante 15 9 0 5)]"
  let ?ls = "[linha_antiga, linha_corrente]"
  note a = fechamento_por_chave [where agora = "instante 15 9 0 10" and app = "Some ''a.exe''"
      and titulo = "Some ''T''" and ini = "instante 15 9 0 5" and ps = ?ps]
  note b = fechamento_por_chave [where agora = "instante 15 9 0 10" and app = "Some ''a.exe''"
      and titulo = "Some ''T''" and ini = "instante 15 9 0 7" and ps = ?ps]
  note c = fechamento_por_chave [where agora = "instante 15 9 5 0" and st = "''Ativo''"
      and ls = ?ls]
  note d = fechamento_por_chave [where agora = "instante 15 9 5 0" and st = "''Ocioso''"
      and ls = ?ls]
  have p: "\<forall>r\<in>set ?ps. \<not> where_programas_documentos (Some ''a.exe'') (Some ''T'') (instante 15 9 0 7) r"
    by (simp add: where_programas_documentos_def foco_aberto_def instante_def)
  have l: "\<forall>r\<in>set ?ls. \<not> where_log_atividade ''Ocioso'' r"
    by (simp add: where_log_atividade_def linha_antiga_def linha_corrente_def)
  have a0: "(0::nat) < length ?ps" "(1::nat) < length ?ps" "(0::nat) < length ?ls" "(1::nat) < length ?ls"
    by simp_all
  from a have a1: "\<forall>i<length ?ps. update_programas_documentos (instante 15 9 0 10) (Some ''a.exe'') (Some ''T'')
      (instante 15 9 0 5) ?ps ! i =
        (if nome_programa (?ps ! i) = Some ''a.exe'' \<and> Some ''a.exe'' \<noteq> None
            \<and> nome_documento (?ps ! i) = Some ''T'' \<and> Some ''T'' \<noteq> None
            \<and> data_hora_inicio (?ps ! i) = instante 15 9 0 5 \<and> prog_data_hora_final (?ps ! i) = None
         then (?ps ! i)\<lparr>prog_data_hora_final := Some (instante 15 9 0 10)\<rparr> else ?ps ! i)"
    by blast
  from c have a2: "\<forall>i<length ?ls. update_log_atividade (instante 15 9 5 0) ''Ativo'' ?ls ! i =
        (if status (?ls ! i) = ''Ativo'' \<and> data_hora_final (?ls ! i) = None
         then (?ls ! i)\<lparr>data_hora_final := Some (instante 15 9 5 0)\<rparr> else ?ls ! i)"
    by blast
  from b p have b1: "update_programas_documentos (instante 15 9 0 10) (Some ''a.exe'') (Some ''T'')
      (instante 15 9 0 7) ?ps = ?ps"
    by blast
  from d l have b2: "update_log_atividade (instante 15 9 5 0) ''Ocioso'' ?ls = ?ls"
    by blast
  show ?thesis
    using a1 [rule_format, OF a0(1)] a1 [rule_format, OF a0(2)]
      a2 [rule_format, OF a0(3)] a2 [rule_format, OF a0(4)] b1 b2
    by (simp add: foco_aberto_def linha_antiga_def linha_corrente_def instante_def)
qed

text \<open>
  Claim C3 as written leaves an open status row alone when its start differs from the
  start of the interval being closed. A new run of the program finds the open row of
  14 January, opens its own row on the 15th at 09:00:00, and at 09:05:00 turns idle: the
  \<^verbatim>\<open>UPDATE\<close> closes both rows.
\<close>

theorem fechamento_status_counterexample:
  "monitorar LIMITE_OCIOSO [amostra_ok 0 (None, None) (instante 15 9 0 0)]
       (init \<lparr>log_atividade = [linha_antiga], programas_documentos = []\<rparr>)
     = Inr estado_duas_abertas
   \<and> data_hora linha_antiga \<noteq> data_hora linha_corrente
   \<and> log_atividade (db (registrar_status (instante 15 9 5 0) True True ''Ocioso'' estado_duas_abertas))
     = [linha_antiga\<lparr>data_hora_final := Some (instante 15 9 5 0)\<rparr>,
        linha_corrente\<lparr>data_hora_final := Some (instante 15 9 5 0)\<rparr>,
        \<lparr>row_id = 3, status = ''Ocioso'', data_hora = instante 15 9 5 0, data_hora_final = None\<rparr>]"
  by (simp add: estado_duas_abertas_def linha_antiga_def linha_corrente_def tracker_defs Let_def)

subsection \<open>Failing writes\<close>




end
